theory Spec2Isabelle
  imports Main
begin

section \<open>Python values used by the MCP tool wrapper\<close>

text \<open>
  The wrapper in \<^verbatim>\<open>src/aiq/tool/mcp/mcp_tool.py\<close> raises \<^verbatim>\<open>ValueError\<close> itself
  (the configuration error of the specification) and lets through or catches whatever its
  collaborators raise. An exception is modelled by its class and by the text that
  \<^verbatim>\<open>str(e)\<close> gives. The class \<open>NonException\<close> stands for the classes that derive
  from \<^verbatim>\<open>BaseException\<close> only (\<^verbatim>\<open>KeyboardInterrupt\<close>, \<^verbatim>\<open>SystemExit\<close>,
  \<^verbatim>\<open>asyncio.CancelledError\<close>): a clause \<^verbatim>\<open>except Exception\<close> does not catch them.
\<close>

datatype exc_class =
    ValueError
  | ValidationError
  | RemoteToolError
  | TransportError
  | NotFoundError
  | OtherException
  | NonException

datatype exc = Exc (exc_class: exc_class) (str: string)

fun isinstance_Exception :: "exc \<Rightarrow> bool" where
  "isinstance_Exception (Exc NonException _) = False"
| "isinstance_Exception (Exc _ _) = True"

fun is_not_None :: "'a option \<Rightarrow> bool" where
  "is_not_None None = False"
| "is_not_None (Some _) = True"

text \<open>Truthiness of an optional string or list: \<^verbatim>\<open>None\<close> and the empty value are falsy.\<close>

fun truthy :: "'a list option \<Rightarrow> bool" where
  "truthy None = False"
| "truthy (Some []) = False"
| "truthy (Some (_ # _)) = True"

text \<open>\<^verbatim>\<open>str(x)\<close> of an optional string: \<^verbatim>\<open>str(None)\<close> is the text \<^verbatim>\<open>None\<close>.\<close>

fun py_str :: "string option \<Rightarrow> string" where
  "py_str None = ''None''"
| "py_str (Some s) = s"

text \<open>\<^verbatim>\<open>sep.join(xs)\<close>.\<close>

fun join :: "string \<Rightarrow> string list \<Rightarrow> string" where
  "join sep [] = []"
| "join sep [x] = x"
| "join sep (x # y # ys) = x @ sep @ join sep (y # ys)"

fun raises :: "exc_class \<Rightarrow> exc + 'a \<Rightarrow> bool" where
  "raises c (Inl e) = (exc_class e = c)"
| "raises c (Inr _) = False"

section \<open>Configuration\<close>

text \<open>The type \<^verbatim>\<open>Literal["sse", "stdio", "streamable-http"]\<close> and the text of a value.\<close>

datatype transport_type = SSE | Stdio | StreamableHTTP

fun transport_type_str :: "transport_type \<Rightarrow> string" where
  "transport_type_str SSE = ''sse''"
| "transport_type_str Stdio = ''stdio''"
| "transport_type_str StreamableHTTP = ''streamable-http''"

text \<open>
  The five transport fields are declared with the same names and types by
  \<^verbatim>\<open>MCPToolConfig\<close> and by \<^verbatim>\<open>MCPServerConfig\<close>; both records extend this one.
  A URL is kept as its text and a server reference as its name; an environment is an
  association list.
\<close>

record transport_fields =
  url :: "string option"
  transport_type :: transport_type
  command :: "string option"
  args :: "string list option"
  env :: "(string \<times> string) list option"

record MCPToolConfig = transport_fields +
  server :: "string option"
  mcp_tool_name :: string
  description :: "string option"
  return_exception :: bool

text \<open>
  What \<^verbatim>\<open>builder.get_server\<close> returns: a server configuration with its declared
  \<^verbatim>\<open>server_type\<close>.
\<close>

record ServerConfig = transport_fields +
  server_type :: string

text \<open>
  The keyword arguments given to the constructor of \<^verbatim>\<open>MCPToolConfig\<close>: every field with
  a default may be omitted, \<^verbatim>\<open>mcp_tool_name\<close> is required.
\<close>

record MCPToolConfig_kwargs =
  kw_server :: "string option"
  kw_url :: "string option"
  kw_transport_type :: "transport_type option"
  kw_command :: "string option"
  kw_args :: "string list option"
  kw_env :: "(string \<times> string) list option"
  kw_mcp_tool_name :: string
  kw_description :: "string option"
  kw_return_exception :: "bool option"

fun field_default :: "'a \<Rightarrow> 'a option \<Rightarrow> 'a" where
  "field_default d None = d"
| "field_default d (Some v) = v"

text \<open>The field declarations of \<^verbatim>\<open>MCPToolConfig\<close> with their defaults (lines 37 to 59).\<close>

definition MCPToolConfig_fields :: "MCPToolConfig_kwargs \<Rightarrow> MCPToolConfig" where
  "MCPToolConfig_fields kw =
     \<lparr> url = kw_url kw,
       transport_type = field_default SSE (kw_transport_type kw),
       command = kw_command kw,
       args = kw_args kw,
       env = kw_env kw,
       server = kw_server kw,
       mcp_tool_name = kw_mcp_tool_name kw,
       description = kw_description kw,
       return_exception = field_default True (kw_return_exception kw) \<rparr>"

text \<open>
  \<^verbatim>\<open>MCPToolConfig.model_post_init\<close> (lines 61 to 91). The call of the base class's
  \<^verbatim>\<open>model_post_init\<close> does nothing.
\<close>

definition model_post_init :: "MCPToolConfig \<Rightarrow> exc + unit" where
  "model_post_init self =
     (let using_server_ref = is_not_None (server self);
          using_direct_config = (is_not_None (url self) \<or> is_not_None (command self))
      in
      if \<not> using_server_ref \<and> \<not> using_direct_config then
        Inl (Exc ValueError ''Either server reference or direct configuration must be provided'')
      else if using_server_ref \<and> using_direct_config then
        Inl (Exc ValueError ''Cannot use both server reference and direct configuration'')
      else if using_server_ref then
        (if is_not_None (url self) \<or> is_not_None (command self)
            \<or> is_not_None (args self) \<or> is_not_None (env self) then
           Inl (Exc ValueError
             ''Direct configuration fields should not be set when using server reference'')
         else Inr ())
      else if transport_type self = Stdio then
        (if is_not_None (url self) then
           Inl (Exc ValueError ''url should not be set when using stdio transport type'')
         else if \<not> truthy (command self) then
           Inl (Exc ValueError ''command is required when using stdio transport type'')
         else Inr ())
      else if transport_type self \<in> set [StreamableHTTP, SSE] then
        (if is_not_None (command self) \<or> is_not_None (args self)
            \<or> is_not_None (env self) then
           Inl (Exc ValueError
             ''command, args, and env should not be set when using sse/streamable-http transport type'')
         else if \<not> truthy (url self) then
           Inl (Exc ValueError
             ''url is required when using sse/streamable-http transport type'')
         else Inr ())
      else Inr ())"

text \<open>
  Constructing the configuration: the fields are filled in, then \<^verbatim>\<open>model_post_init\<close>
  runs. The validation of the single fields by pydantic is not part of this: the keyword
  arguments already have the types of the fields, and a URL its syntax. The error is the
  \<^verbatim>\<open>ValueError\<close> as \<^verbatim>\<open>model_post_init\<close> raises it; pydantic reports it to the caller
  of the constructor as its own \<^verbatim>\<open>ValidationError\<close>, a subclass of \<^verbatim>\<open>ValueError\<close>,
  with that message inside a longer text.
\<close>

definition MCPToolConfig_init :: "MCPToolConfig_kwargs \<Rightarrow> exc + MCPToolConfig" where
  "MCPToolConfig_init kw =
     (let self = MCPToolConfig_fields kw
      in case model_post_init self of Inl e \<Rightarrow> Inl e | Inr _ \<Rightarrow> Inr self)"

section \<open>Collaborators of the wrapper\<close>

text \<open>
  The module \<^verbatim>\<open>aiq.tool.mcp.mcp_client\<close>, the builder and \<^verbatim>\<open>FunctionInfo\<close> are not
  part of the sources at hand. What the wrapper calls on them is a parameter of the model:
  a dictionary of arguments has type \<open>'d\<close>, an instance of the tool's input schema has
  type \<open>'m\<close>.
\<close>

text \<open>
  The input schema of a tool is a pydantic model class: \<^verbatim>\<open>model_validate\<close> and
  \<^verbatim>\<open>model_validate_json\<close> build an instance or raise, \<^verbatim>\<open>model_dump\<close> turns an
  instance into a dictionary, and \<open>model_bool\<close> is the truth value of an instance.
\<close>

record ('d, 'm) schema =
  model_validate :: "'d \<Rightarrow> exc + 'm"
  model_validate_json :: "string \<Rightarrow> exc + 'm"
  model_dump :: "'m \<Rightarrow> 'd"
  model_bool :: "'m \<Rightarrow> bool"

text \<open>
  \<^verbatim>\<open>MCPToolClient\<close>: the name, the description and the input schema of the discovered
  tool, and \<^verbatim>\<open>acall\<close>, the remote call, which returns the tool's text or raises.
\<close>

record ('d, 'm) MCPToolClient =
  tool_name :: string
  tool_description :: string
  input_schema :: "('d, 'm) schema"
  acall :: "'d \<Rightarrow> exc + string"

text \<open>
  Modelled from the spec: \<^verbatim>\<open>MCPToolClient.set_description\<close> is missing from the sources;
  the specification says that it overrides the exposed description only, never the
  schema.
\<close>

definition set_description :: "string \<Rightarrow> ('d, 'm) MCPToolClient \<Rightarrow> ('d, 'm) MCPToolClient" where
  "set_description text tool = tool\<lparr>tool_description := text\<rparr>"

text \<open>The three client classes, with the arguments the wrapper constructs them from.\<close>

datatype client =
    MCPStdioClient "string option" "string list option" "(string \<times> string) list option"
  | MCPStreamableHTTPClient string
  | MCPSSEClient string

text \<open>
  \<^verbatim>\<open>builder.get_server\<close> looks a server reference up; entering the client's context and
  \<^verbatim>\<open>client.get_tool\<close> connect to the server and discover the tool. Both may raise.
\<close>

record Builder =
  get_server :: "string \<Rightarrow> exc + ServerConfig"

type_synonym ('d, 'm) get_tool = "client \<Rightarrow> string \<Rightarrow> exc + ('d, 'm) MCPToolClient"

text \<open>
  Modelled from the spec: \<^verbatim>\<open>FunctionInfo.create\<close> is missing from the sources; the
  specification describes the adapter as the function, its declared description, its
  input schema and the converter from text. A call of the function yields the list of
  argument dictionaries sent to the remote tool and either the raised exception or the
  returned text.
\<close>

record ('d, 'm) FunctionInfo =
  single_fn :: "'m option \<Rightarrow> 'd \<Rightarrow> 'd list \<times> (exc + string)"
  fn_description :: string
  fn_input_schema :: "('d, 'm) schema"
  converters :: "(string \<Rightarrow> exc + 'm) list"

section \<open>The wrapper\<close>

text \<open>Lines 104 to 120: the transport parameters, from the referenced server or inline.\<close>

definition server_configuration ::
  "MCPToolConfig \<Rightarrow> Builder \<Rightarrow> exc + transport_fields" where
  "server_configuration config builder =
     (case server config of
        Some ref \<Rightarrow>
          (case get_server builder ref of
             Inl e \<Rightarrow> Inl e
           | Inr server_config \<Rightarrow>
               if server_type server_config \<noteq> ''mcp'' then
                 Inl (Exc ValueError (''Server '' @ ref @ '' is not an MCP server''))
               else
                 Inr \<lparr> url = url server_config,
                       transport_type = transport_type server_config,
                       command = command server_config,
                       args = args server_config,
                       env = env server_config \<rparr>)
      | None \<Rightarrow>
          Inr \<lparr> url = url config,
                transport_type = transport_type config,
                command = command config,
                args = args config,
                env = env config \<rparr>)"

text \<open>\<^verbatim>\<open>' '.join(args) if args else ''\<close> of line 124.\<close>

fun args_text :: "string list option \<Rightarrow> string" where
  "args_text (Some (a # as)) = join '' '' (a # as)"
| "args_text _ = []"

text \<open>Lines 122 to 133: the text \<^verbatim>\<open>source\<close> and the client.\<close>

definition initialize_client :: "transport_fields \<Rightarrow> exc + string \<times> client" where
  "initialize_client t =
     (if transport_type t = Stdio then
        (let source = py_str (command t) @ '' '' @ args_text (args t)
         in Inr (source, MCPStdioClient (command t) (args t) (env t)))
      else if transport_type t = StreamableHTTP then
        (let source = py_str (url t)
         in Inr (source, MCPStreamableHTTPClient source))
      else if transport_type t = SSE then
        (let source = py_str (url t)
         in Inr (source, MCPSSEClient source))
      else
        Inl (Exc ValueError
          (''Invalid transport type: '' @ transport_type_str (transport_type t))))"

text \<open>
  Lines 138 and 139: a description of the configuration that is neither \<^verbatim>\<open>None\<close> nor
  empty replaces the tool's.
\<close>

fun override_description ::
  "string option \<Rightarrow> ('d, 'm) MCPToolClient \<Rightarrow> ('d, 'm) MCPToolClient" where
  "override_description (Some (c # cs)) tool = set_description (c # cs) tool"
| "override_description _ tool = tool"

text \<open>\<^verbatim>\<open>_convert_from_str\<close> (lines 143 and 144).\<close>

definition convert_from_str :: "('d, 'm) MCPToolClient \<Rightarrow> string \<Rightarrow> exc + 'm" where
  "convert_from_str tool input_str = model_validate_json (input_schema tool) input_str"

text \<open>The test \<^verbatim>\<open>if tool_input:\<close> of line 149.\<close>

fun tool_input_truthy :: "('d, 'm) MCPToolClient \<Rightarrow> 'm option \<Rightarrow> bool" where
  "tool_input_truthy tool None = False"
| "tool_input_truthy tool (Some m) = model_bool (input_schema tool) m"

text \<open>
  Lines 153 and 154: the keyword arguments are validated, then sent. The result is the
  list of dictionaries sent to the remote tool and what is returned or raised.
\<close>

definition call_kwargs :: "('d, 'm) MCPToolClient \<Rightarrow> 'd \<Rightarrow> 'd list \<times> (exc + string)" where
  "call_kwargs tool kwargs =
     (case model_validate (input_schema tool) kwargs of
        Inl e \<Rightarrow> ([], Inl e)
      | Inr _ \<Rightarrow> ([kwargs], acall tool kwargs))"

text \<open>The body of the \<^verbatim>\<open>try\<close> (lines 149 to 154).\<close>

fun try_body ::
  "('d, 'm) MCPToolClient \<Rightarrow> 'm option \<Rightarrow> 'd \<Rightarrow> 'd list \<times> (exc + string)" where
  "try_body tool (Some m) kwargs =
     (if model_bool (input_schema tool) m then
        (let args = model_dump (input_schema tool) m
         in ([args], acall tool args))
      else call_kwargs tool kwargs)"
| "try_body tool None kwargs = call_kwargs tool kwargs"

text \<open>
  \<^verbatim>\<open>_response_fn\<close> (lines 146 to 166). The warnings written to the log have no part in
  the result and are left out.
\<close>

definition response_fn ::
  "MCPToolConfig \<Rightarrow> ('d, 'm) MCPToolClient \<Rightarrow> 'm option \<Rightarrow> 'd \<Rightarrow> 'd list \<times> (exc + string)" where
  "response_fn config tool tool_input kwargs =
     (case try_body tool tool_input kwargs of
        (sent, Inr result) \<Rightarrow> (sent, Inr result)
      | (sent, Inl e) \<Rightarrow>
          if isinstance_Exception e then
            (if return_exception config then (sent, Inr (str e)) else (sent, Inl e))
          else (sent, Inl e))"

text \<open>Lines 104 to 133 together: the text \<^verbatim>\<open>source\<close> and the client, or the error.\<close>

definition setup_client :: "MCPToolConfig \<Rightarrow> Builder \<Rightarrow> exc + string \<times> client" where
  "setup_client config builder =
     (case server_configuration config builder of
        Inl e \<Rightarrow> Inl e
      | Inr t \<Rightarrow> initialize_client t)"

text \<open>\<^verbatim>\<open>mcp_tool\<close> (lines 95 to 171).\<close>

definition mcp_tool ::
  "('d, 'm) get_tool \<Rightarrow> MCPToolConfig \<Rightarrow> Builder \<Rightarrow> exc + ('d, 'm) FunctionInfo" where
  "mcp_tool get_tool config builder =
     (case setup_client config builder of
        Inl e \<Rightarrow> Inl e
      | Inr (source, client) \<Rightarrow>
          (case get_tool client (mcp_tool_name config) of
             Inl e \<Rightarrow> Inl e
           | Inr discovered \<Rightarrow>
               (let tool = override_description (description config) discovered
                in Inr \<lparr> single_fn = response_fn config tool,
                         fn_description = tool_description tool,
                         fn_input_schema = input_schema tool,
                         converters = [convert_from_str tool] \<rparr>)))"

section \<open>Example collaborators and configurations\<close>

text \<open>
  A small tool for the closed instances below: dictionaries are association lists of
  texts, the schema requires the key \<open>text\<close>, an instance is falsy when it has no
  entry, and the remote call echoes the text.
\<close>

type_synonym dict = "(string \<times> string) list"

definition echo_schema :: "(dict, dict) schema" where
  "echo_schema =
     \<lparr> model_validate = (\<lambda>kwargs. case map_of kwargs ''text'' of
           None \<Rightarrow> Inl (Exc ValidationError ''text: Field required'')
         | Some _ \<Rightarrow> Inr kwargs),
       model_validate_json = (\<lambda>input_str. if input_str = [] then
           Inl (Exc ValidationError ''Invalid JSON: EOF while parsing a value'')
         else Inr [(''text'', input_str)]),
       model_dump = (\<lambda>m. m),
       model_bool = (\<lambda>m. case m of [] \<Rightarrow> False | _ # _ \<Rightarrow> True) \<rparr>"

definition echo_tool :: "(dict, dict) MCPToolClient" where
  "echo_tool =
     \<lparr> tool_name = ''echo'',
       tool_description = ''Echo the text'',
       input_schema = echo_schema,
       acall = (\<lambda>d. case map_of d ''text'' of
           None \<Rightarrow> Inl (Exc RemoteToolError ''nothing to echo'')
         | Some v \<Rightarrow> Inr v) \<rparr>"

text \<open>The same tool behind a server that cannot be reached.\<close>

definition unreachable_tool :: "(dict, dict) MCPToolClient" where
  "unreachable_tool =
     echo_tool\<lparr>acall := (\<lambda>d. Inl (Exc TransportError ''All connection attempts failed''))\<rparr>"

text \<open>The same schema before a remote tool that answers whatever it is sent.\<close>

definition lenient_tool :: "(dict, dict) MCPToolClient" where
  "lenient_tool = echo_tool\<lparr>acall := (\<lambda>d. Inr ''ok'')\<rparr>"

definition example_get_tool :: "(dict, dict) get_tool" where
  "example_get_tool client name =
     (if name = ''echo'' then Inr echo_tool
      else Inl (Exc NotFoundError (''Tool '' @ name @ '' not found'')))"

definition example_builder :: Builder where
  "example_builder =
     \<lparr> get_server = (\<lambda>ref.
         if ref = ''tools'' then
           Inr \<lparr> url = Some ''http://host/mcp'', transport_type = SSE, command = None,
                 args = None, env = None, server_type = ''mcp'' \<rparr>
         else if ref = ''peer'' then
           Inr \<lparr> url = Some ''http://peer/a2a'', transport_type = SSE, command = None,
                 args = None, env = None, server_type = ''a2a'' \<rparr>
         else Inl (Exc ValueError (''Server '' @ ref @ '' not found''))) \<rparr>"

definition no_kwargs :: MCPToolConfig_kwargs where
  "no_kwargs =
     \<lparr> kw_server = None, kw_url = None, kw_transport_type = None, kw_command = None,
       kw_args = None, kw_env = None, kw_mcp_tool_name = ''echo'', kw_description = None,
       kw_return_exception = None \<rparr>"

definition scenario_A :: MCPToolConfig_kwargs where
  "scenario_A =
     no_kwargs\<lparr> kw_transport_type := Some Stdio, kw_command := Some ''tool-server'',
                kw_args := Some [''--mode'', ''x''] \<rparr>"

definition scenario_B :: MCPToolConfig_kwargs where
  "scenario_B =
     no_kwargs\<lparr> kw_transport_type := Some SSE, kw_url := Some ''http://host/mcp'',
                kw_command := Some ''x'' \<rparr>"

definition sse_kwargs :: MCPToolConfig_kwargs where
  "sse_kwargs = no_kwargs\<lparr> kw_url := Some ''http://host/mcp'' \<rparr>"

definition server_kwargs :: "string \<Rightarrow> MCPToolConfig_kwargs" where
  "server_kwargs ref = no_kwargs\<lparr> kw_server := Some ref \<rparr>"

section \<open>Auxiliary facts\<close>

lemma raises_ValueError_Inl [simp]: "raises ValueError (Inl (Exc ValueError m))"
  by simp

lemma response_fn_truthy:
  "model_bool (input_schema tool) m \<Longrightarrow>
   response_fn config tool (Some m) kwargs =
     (let d = model_dump (input_schema tool) m
      in case acall tool d of
           Inr r \<Rightarrow> ([d], Inr r)
         | Inl e \<Rightarrow> ([d], if isinstance_Exception e \<and> return_exception config
                            then Inr (str e) else Inl e))"
  by (simp add: response_fn_def Let_def split: sum.splits)

lemma try_body_falsy:
  "\<not> tool_input_truthy tool tool_input \<Longrightarrow>
   try_body tool tool_input kwargs = call_kwargs tool kwargs"
  by (cases tool_input) simp_all

lemma response_fn_falsy:
  "\<not> tool_input_truthy tool tool_input \<Longrightarrow>
   response_fn config tool tool_input kwargs =
     (case model_validate (input_schema tool) kwargs of
        Inl e \<Rightarrow> ([], if isinstance_Exception e \<and> return_exception config
                       then Inr (str e) else Inl e)
      | Inr _ \<Rightarrow>
          (case acall tool kwargs of
             Inr r \<Rightarrow> ([kwargs], Inr r)
           | Inl e \<Rightarrow> ([kwargs], if isinstance_Exception e \<and> return_exception config
                                 then Inr (str e) else Inl e)))"
  by (simp add: response_fn_def try_body_falsy call_kwargs_def split: sum.splits)

text \<open>The last \<^verbatim>\<open>else\<close> of line 132 is out of reach for a value of the \<^verbatim>\<open>Literal\<close> type.\<close>

lemma initialize_client_returns: "\<exists>source client. initialize_client t = Inr (source, client)"
  by (cases "transport_type t") (simp_all add: initialize_client_def Let_def)

lemma isinstance_Exception_class:
  "exc_class e \<noteq> NonException \<Longrightarrow> isinstance_Exception e"
  by (cases e; cases "exc_class e") simp_all

section \<open>Configuration resolution\<close>

lemma model_post_init_class:
  "model_post_init c = Inl e \<Longrightarrow> exc_class e = ValueError"
  by (auto simp: model_post_init_def Let_def split: if_splits transport_type.splits)

text \<open>
  C4. The inline transport fields are \<open>url\<close>, \<open>command\<close>, \<open>args\<close> and \<open>env\<close>
  (\<open>transport_type\<close> always has a value, \<open>sse\<close> by default). Validation raises
  \<^verbatim>\<open>ValueError\<close>, the configuration error, for every configuration with neither a server
  reference nor an inline field, and for every configuration with a server reference and
  an inline field; a configuration that is accepted has exactly one of the two sources.
\<close>

theorem config_source_exactly_one:
  "(server c = None \<and> url c = None \<and> command c = None \<and> args c = None \<and> env c = None
      \<longrightarrow> raises ValueError (model_post_init c)) \<and>
   (server c \<noteq> None \<and> (url c \<noteq> None \<or> command c \<noteq> None \<or> args c \<noteq> None \<or> env c \<noteq> None)
      \<longrightarrow> raises ValueError (model_post_init c)) \<and>
   (model_post_init c = Inr ()
      \<longrightarrow> (server c \<noteq> None) \<noteq>
          (url c \<noteq> None \<or> command c \<noteq> None \<or> args c \<noteq> None \<or> env c \<noteq> None))"
  by (cases "server c"; cases "url c"; cases "command c"; cases "args c"; cases "env c";
      cases "transport_type c")
     (simp_all add: model_post_init_def)

theorem config_source_exactly_one_witness:
  "raises ValueError (model_post_init (MCPToolConfig_fields no_kwargs)) \<and>
   raises ValueError (model_post_init
     (MCPToolConfig_fields ((server_kwargs ''tools'')\<lparr>kw_args := Some [''-v'']\<rparr>))) \<and>
   model_post_init (MCPToolConfig_fields sse_kwargs) = Inr () \<and>
   server (MCPToolConfig_fields sse_kwargs) = None \<and>
   url (MCPToolConfig_fields sse_kwargs) \<noteq> None \<and>
   model_post_init (MCPToolConfig_fields (server_kwargs ''tools'')) = Inr () \<and>
   server (MCPToolConfig_fields (server_kwargs ''tools'')) \<noteq> None \<and>
   url (MCPToolConfig_fields (server_kwargs ''tools'')) = None"
proof -
  have ok: "model_post_init (MCPToolConfig_fields sse_kwargs) = Inr ()"
    and ok': "model_post_init (MCPToolConfig_fields (server_kwargs ''tools'')) = Inr ()"
    by (simp_all add: model_post_init_def MCPToolConfig_fields_def sse_kwargs_def
        server_kwargs_def no_kwargs_def)
  show ?thesis
    using config_source_exactly_one [of "MCPToolConfig_fields no_kwargs"]
      config_source_exactly_one
        [of "MCPToolConfig_fields ((server_kwargs ''tools'')\<lparr>kw_args := Some [''-v'']\<rparr>)"]
      config_source_exactly_one [of "MCPToolConfig_fields sse_kwargs"]
      config_source_exactly_one [of "MCPToolConfig_fields (server_kwargs ''tools'')"]
      ok ok'
    by (simp add: MCPToolConfig_fields_def sse_kwargs_def server_kwargs_def no_kwargs_def)
qed

text \<open>
  C5. For a configuration without server reference and with transport type \<open>stdio\<close>:
  validation raises \<^verbatim>\<open>ValueError\<close> when \<open>url\<close> is set, and when \<open>command\<close> is absent
  or empty; with no \<open>url\<close> and a non-empty \<open>command\<close> (whatever \<open>args\<close> and
  \<open>env\<close> are) validation passes, and the wrapper selects the stdio client with the
  configuration's command, arguments and environment.
\<close>

theorem stdio_config_resolution:
  "server c = None \<and> transport_type c = Stdio \<longrightarrow>
     (url c \<noteq> None \<longrightarrow> raises ValueError (model_post_init c)) \<and>
     (\<not> truthy (command c) \<longrightarrow> raises ValueError (model_post_init c)) \<and>
     (url c = None \<and> truthy (command c) \<longrightarrow>
        model_post_init c = Inr () \<and>
        setup_client c builder =
          Inr (py_str (command c) @ '' '' @ args_text (args c),
               MCPStdioClient (command c) (args c) (env c)))"
  by (cases "url c"; cases "command c")
     (auto simp: model_post_init_def setup_client_def server_configuration_def
        initialize_client_def)

theorem stdio_config_resolution_witness:
  "raises ValueError (model_post_init
     (MCPToolConfig_fields (scenario_A\<lparr>kw_url := Some ''http://host/mcp''\<rparr>))) \<and>
   raises ValueError (model_post_init
     (MCPToolConfig_fields (scenario_A\<lparr>kw_command := Some []\<rparr>))) \<and>
   raises ValueError (model_post_init
     (MCPToolConfig_fields (scenario_A\<lparr>kw_command := None\<rparr>))) \<and>
   MCPToolConfig_init scenario_A = Inr (MCPToolConfig_fields scenario_A) \<and>
   setup_client (MCPToolConfig_fields scenario_A) example_builder =
     Inr (''tool-server --mode x'',
          MCPStdioClient (Some ''tool-server'') (Some [''--mode'', ''x'']) None)"
  using stdio_config_resolution
      [of "MCPToolConfig_fields (scenario_A\<lparr>kw_url := Some ''http://host/mcp''\<rparr>)"]
    stdio_config_resolution [of "MCPToolConfig_fields (scenario_A\<lparr>kw_command := Some []\<rparr>)"]
    stdio_config_resolution [of "MCPToolConfig_fields (scenario_A\<lparr>kw_command := None\<rparr>)"]
    stdio_config_resolution [of "MCPToolConfig_fields scenario_A" example_builder]
  by (simp add: MCPToolConfig_init_def model_post_init_def MCPToolConfig_fields_def
      scenario_A_def no_kwargs_def setup_client_def server_configuration_def
      initialize_client_def)

text \<open>
  C6. For a configuration without server reference and with transport type \<open>sse\<close> or
  \<open>streamable-http\<close>: validation raises \<^verbatim>\<open>ValueError\<close> when any of \<open>command\<close>,
  \<open>args\<close>, \<open>env\<close> is set, and when \<open>url\<close> is absent or empty.
\<close>

theorem http_config_resolution:
  "server c = None \<and> (transport_type c = SSE \<or> transport_type c = StreamableHTTP) \<longrightarrow>
     (command c \<noteq> None \<or> args c \<noteq> None \<or> env c \<noteq> None
        \<longrightarrow> raises ValueError (model_post_init c)) \<and>
     (\<not> truthy (url c) \<longrightarrow> raises ValueError (model_post_init c))"
  by (cases "url c"; cases "command c"; cases "args c"; cases "env c")
     (auto simp: model_post_init_def)

theorem http_config_resolution_witness:
  "raises ValueError (model_post_init (MCPToolConfig_fields scenario_B)) \<and>
   raises ValueError (model_post_init
     (MCPToolConfig_fields (sse_kwargs\<lparr>kw_transport_type := Some StreamableHTTP,
        kw_env := Some [(''HOME'', ''/root'')]\<rparr>))) \<and>
   raises ValueError (model_post_init
     (MCPToolConfig_fields (sse_kwargs\<lparr>kw_url := Some []\<rparr>))) \<and>
   raises ValueError (model_post_init
     (MCPToolConfig_fields (no_kwargs\<lparr>kw_transport_type := Some StreamableHTTP\<rparr>)))"
  using http_config_resolution [of "MCPToolConfig_fields scenario_B"]
    http_config_resolution
      [of "MCPToolConfig_fields (sse_kwargs\<lparr>kw_transport_type := Some StreamableHTTP,
        kw_env := Some [(''HOME'', ''/root'')]\<rparr>)"]
    http_config_resolution [of "MCPToolConfig_fields (sse_kwargs\<lparr>kw_url := Some []\<rparr>)"]
    http_config_resolution
      [of "MCPToolConfig_fields (no_kwargs\<lparr>kw_transport_type := Some StreamableHTTP\<rparr>)"]
  by (simp add: MCPToolConfig_init_def model_post_init_def MCPToolConfig_fields_def
      scenario_B_def sse_kwargs_def no_kwargs_def)

text \<open>
  C7. With a server reference that the builder resolves to a server whose declared type is
  not \<open>mcp\<close>, the wrapper raises \<^verbatim>\<open>ValueError\<close> before any client is created; and
  validation raises \<^verbatim>\<open>ValueError\<close> for every configuration that sets any of \<open>url\<close>,
  \<open>command\<close>, \<open>args\<close>, \<open>env\<close> beside a server reference.
\<close>

theorem server_reference_resolution:
  "(server config = Some ref \<and> get_server builder ref = Inr server_config
      \<and> server_type server_config \<noteq> ''mcp''
      \<longrightarrow> mcp_tool get_tool config builder
            = Inl (Exc ValueError (''Server '' @ ref @ '' is not an MCP server''))) \<and>
   (server config \<noteq> None
      \<and> (url config \<noteq> None \<or> command config \<noteq> None \<or> args config \<noteq> None \<or> env config \<noteq> None)
      \<longrightarrow> raises ValueError (model_post_init config))"
  by (cases "server config"; cases "url config"; cases "command config"; cases "args config";
      cases "env config")
     (simp_all add: mcp_tool_def setup_client_def server_configuration_def model_post_init_def)

theorem server_reference_resolution_witness:
  "MCPToolConfig_init (server_kwargs ''peer'') = Inr (MCPToolConfig_fields (server_kwargs ''peer'')) \<and>
   raises ValueError
     (mcp_tool example_get_tool (MCPToolConfig_fields (server_kwargs ''peer'')) example_builder) \<and>
   raises ValueError (model_post_init
     (MCPToolConfig_fields ((server_kwargs ''tools'')\<lparr>kw_env := Some []\<rparr>)))"
  using server_reference_resolution
      [of "MCPToolConfig_fields (server_kwargs ''peer'')" "''peer''" example_builder _
          example_get_tool]
    server_reference_resolution
      [of "MCPToolConfig_fields ((server_kwargs ''tools'')\<lparr>kw_env := Some []\<rparr>)"]
  by (simp add: MCPToolConfig_init_def model_post_init_def MCPToolConfig_fields_def
      server_kwargs_def no_kwargs_def example_builder_def mcp_tool_def setup_client_def
      server_configuration_def)

section \<open>Containment of failures\<close>

text \<open>
  C1, as stated, fails: with \<open>return_exception\<close> true, keyword arguments that pass
  validation and a remote call that raises a transport error, the call returns the
  error's text and raises nothing.
\<close>

theorem transport_error_raised_counterexample:
  "return_exception (MCPToolConfig_fields sse_kwargs) \<and>
   model_validate (input_schema unreachable_tool) [(''text'', ''hi'')] = Inr [(''text'', ''hi'')] \<and>
   acall unreachable_tool [(''text'', ''hi'')]
     = Inl (Exc TransportError ''All connection attempts failed'') \<and>
   response_fn (MCPToolConfig_fields sse_kwargs) unreachable_tool None [(''text'', ''hi'')]
     = ([[(''text'', ''hi'')]], Inr ''All connection attempts failed'') \<and>
   \<not> raises TransportError
     (snd (response_fn (MCPToolConfig_fields sse_kwargs) unreachable_tool None
        [(''text'', ''hi'')]))"
  by (simp add: response_fn_def call_kwargs_def unreachable_tool_def echo_tool_def
      echo_schema_def MCPToolConfig_fields_def sse_kwargs_def no_kwargs_def)

text \<open>
  C1, amended. When the input is well formed (a truthy schema instance, or keyword
  arguments that pass validation) and the remote call raises a transport error, the
  failure is contained like any other \<^verbatim>\<open>Exception\<close> if \<open>return_exception\<close> is true:
  the call returns the error's text; it is raised only if \<open>return_exception\<close> is false.
\<close>

theorem transport_error_contained:
  "exc_class e = TransportError \<longrightarrow>
     (model_bool (input_schema tool) m
        \<and> acall tool (model_dump (input_schema tool) m) = Inl e
      \<longrightarrow> response_fn config tool (Some m) kwargs
            = ([model_dump (input_schema tool) m],
               if return_exception config then Inr (str e) else Inl e)) \<and>
     (\<not> tool_input_truthy tool tool_input
        \<and> model_validate (input_schema tool) kwargs = Inr v
        \<and> acall tool kwargs = Inl e
      \<longrightarrow> response_fn config tool tool_input kwargs
            = ([kwargs], if return_exception config then Inr (str e) else Inl e))"
  by (auto simp: response_fn_truthy response_fn_falsy isinstance_Exception_class)

theorem transport_error_contained_witness:
  "response_fn (MCPToolConfig_fields sse_kwargs) unreachable_tool (Some [(''text'', ''hi'')]) []
     = ([[(''text'', ''hi'')]], Inr ''All connection attempts failed'') \<and>
   response_fn (MCPToolConfig_fields sse_kwargs) unreachable_tool (Some []) [(''text'', ''hi'')]
     = ([[(''text'', ''hi'')]], Inr ''All connection attempts failed'') \<and>
   response_fn (MCPToolConfig_fields (sse_kwargs\<lparr>kw_return_exception := Some False\<rparr>))
       unreachable_tool None [(''text'', ''hi'')]
     = ([[(''text'', ''hi'')]], Inl (Exc TransportError ''All connection attempts failed''))"
  using transport_error_contained
      [where e = "Exc TransportError ''All connection attempts failed''"
         and tool = unreachable_tool and m = "[(''text'', ''hi'')]"
         and config = "MCPToolConfig_fields sse_kwargs" and kwargs = "[]"]
    transport_error_contained
      [where e = "Exc TransportError ''All connection attempts failed''"
         and tool = unreachable_tool and tool_input = "Some []"
         and kwargs = "[(''text'', ''hi'')]" and v = "[(''text'', ''hi'')]"
         and config = "MCPToolConfig_fields sse_kwargs"]
    transport_error_contained
      [where e = "Exc TransportError ''All connection attempts failed''"
         and tool = unreachable_tool and tool_input = None
         and kwargs = "[(''text'', ''hi'')]" and v = "[(''text'', ''hi'')]"
         and config = "MCPToolConfig_fields (sse_kwargs\<lparr>kw_return_exception := Some False\<rparr>)"]
  by (simp add: unreachable_tool_def echo_tool_def echo_schema_def MCPToolConfig_fields_def
      sse_kwargs_def no_kwargs_def)

text \<open>
  C2, as stated, fails for a schema instance: a truthy instance whose dump fails the
  schema's validation is sent as it is. With \<open>return_exception\<close> false nothing is
  raised, and with \<open>return_exception\<close> true the text returned is the remote tool's, not
  a validation error's.
\<close>

theorem invalid_input_raises_counterexample:
  "model_bool (input_schema lenient_tool) [(''txt'', ''hi'')] \<and>
   model_validate (input_schema lenient_tool)
       (model_dump (input_schema lenient_tool) [(''txt'', ''hi'')])
     = Inl (Exc ValidationError ''text: Field required'') \<and>
   \<not> return_exception (MCPToolConfig_fields (sse_kwargs\<lparr>kw_return_exception := Some False\<rparr>)) \<and>
   response_fn (MCPToolConfig_fields (sse_kwargs\<lparr>kw_return_exception := Some False\<rparr>))
       lenient_tool (Some [(''txt'', ''hi'')]) []
     = ([[(''txt'', ''hi'')]], Inr ''ok'') \<and>
   return_exception (MCPToolConfig_fields sse_kwargs) \<and>
   response_fn (MCPToolConfig_fields sse_kwargs) lenient_tool (Some [(''txt'', ''hi'')]) []
     = ([[(''txt'', ''hi'')]], Inr ''ok'')"
  by (simp add: response_fn_def lenient_tool_def echo_tool_def echo_schema_def
      MCPToolConfig_fields_def sse_kwargs_def no_kwargs_def)

text \<open>
  C2, amended. When the schema instance is absent or falsy and the keyword arguments fail
  validation, nothing is sent to the remote tool; the call returns the text of the
  validation error if \<open>return_exception\<close> is true and raises that error if it is
  false, so it raises exactly when the flag is false. A truthy schema instance is not
  validated by the call: even when its dump fails validation, the dump is sent and the
  outcome is that of the remote call.
\<close>

theorem invalid_input_containment:
  "(\<not> tool_input_truthy tool tool_input
      \<and> model_validate (input_schema tool) kwargs = Inl e
      \<and> exc_class e = ValidationError
    \<longrightarrow> (return_exception config
           \<longrightarrow> response_fn config tool tool_input kwargs = ([], Inr (str e))) \<and>
        (\<not> return_exception config
           \<longrightarrow> response_fn config tool tool_input kwargs = ([], Inl e)) \<and>
        (isl (snd (response_fn config tool tool_input kwargs)) = (\<not> return_exception config))) \<and>
   (model_bool (input_schema tool) m
      \<and> model_validate (input_schema tool) (model_dump (input_schema tool) m) = Inl e'
    \<longrightarrow> response_fn config tool (Some m) kwargs'
        = ([model_dump (input_schema tool) m],
           case acall tool (model_dump (input_schema tool) m) of
             Inr r \<Rightarrow> Inr r
           | Inl x \<Rightarrow> if isinstance_Exception x \<and> return_exception config
                      then Inr (str x) else Inl x))"
  by (auto simp: response_fn_truthy response_fn_falsy isinstance_Exception_class Let_def
      split: sum.splits)

theorem invalid_input_containment_witness:
  "response_fn (MCPToolConfig_fields sse_kwargs) echo_tool None [(''txt'', ''hi'')]
     = ([], Inr ''text: Field required'') \<and>
   response_fn (MCPToolConfig_fields (sse_kwargs\<lparr>kw_return_exception := Some False\<rparr>))
       echo_tool None [(''txt'', ''hi'')]
     = ([], Inl (Exc ValidationError ''text: Field required'')) \<and>
   model_validate (input_schema echo_tool) (model_dump (input_schema echo_tool) [(''txt'', ''hi'')])
     = Inl (Exc ValidationError ''text: Field required'') \<and>
   response_fn (MCPToolConfig_fields (sse_kwargs\<lparr>kw_return_exception := Some False\<rparr>))
       echo_tool (Some [(''txt'', ''hi'')]) []
     = ([[(''txt'', ''hi'')]], Inl (Exc RemoteToolError ''nothing to echo''))"
  using invalid_input_containment
      [where tool = echo_tool and tool_input = None and kwargs = "[(''txt'', ''hi'')]"
         and e = "Exc ValidationError ''text: Field required''"
         and config = "MCPToolConfig_fields sse_kwargs"]
    invalid_input_containment
      [where tool = echo_tool and tool_input = None and kwargs = "[(''txt'', ''hi'')]"
         and e = "Exc ValidationError ''text: Field required''"
         and config = "MCPToolConfig_fields (sse_kwargs\<lparr>kw_return_exception := Some False\<rparr>)"]
    invalid_input_containment
      [where tool = echo_tool and m = "[(''txt'', ''hi'')]" and kwargs' = "[]"
         and e' = "Exc ValidationError ''text: Field required''"
         and config = "MCPToolConfig_fields (sse_kwargs\<lparr>kw_return_exception := Some False\<rparr>)"]
  by (simp add: echo_tool_def echo_schema_def MCPToolConfig_fields_def sse_kwargs_def
      no_kwargs_def)

text \<open>
  C3. Whenever the body of the call raises an exception \<open>e\<close> (from the remote call on
  a schema instance, from the validation of the keyword arguments, or from the remote call
  on the keyword arguments) and the call nevertheless returns a text, that text is
  \<^verbatim>\<open>str(e)\<close>, unchanged.
\<close>

theorem contained_text_verbatim:
  "snd (response_fn config tool tool_input kwargs) = Inr s \<and>
   ((\<exists>m. tool_input = Some m \<and> model_bool (input_schema tool) m
        \<and> acall tool (model_dump (input_schema tool) m) = Inl e)
    \<or> (\<not> tool_input_truthy tool tool_input
        \<and> model_validate (input_schema tool) kwargs = Inl e)
    \<or> (\<not> tool_input_truthy tool tool_input
        \<and> (\<exists>v. model_validate (input_schema tool) kwargs = Inr v)
        \<and> acall tool kwargs = Inl e))
   \<longrightarrow> s = str e"
  by (auto simp: response_fn_truthy response_fn_falsy split: if_splits)

theorem contained_text_verbatim_witness:
  "snd (response_fn (MCPToolConfig_fields sse_kwargs) echo_tool None [(''txt'', ''hi'')])
     = Inr ''text: Field required'' \<and>
   ''text: Field required'' = str (Exc ValidationError ''text: Field required'') \<and>
   snd (response_fn (MCPToolConfig_fields sse_kwargs) echo_tool (Some [(''txt'', ''hi'')]) [])
     = Inr ''nothing to echo'' \<and>
   ''nothing to echo'' = str (Exc RemoteToolError ''nothing to echo'')"
  using contained_text_verbatim
      [of "MCPToolConfig_fields sse_kwargs" echo_tool None "[(''txt'', ''hi'')]"
          "''text: Field required''" "Exc ValidationError ''text: Field required''"]
    contained_text_verbatim
      [of "MCPToolConfig_fields sse_kwargs" echo_tool "Some [(''txt'', ''hi'')]" "[]"
          "''nothing to echo''" "Exc RemoteToolError ''nothing to echo''"]
  by (simp add: response_fn_def call_kwargs_def echo_tool_def echo_schema_def
      MCPToolConfig_fields_def sse_kwargs_def no_kwargs_def)

section \<open>Dispatch of the call and the default policy\<close>

text \<open>
  C9. The call dispatches on the truth value of the schema instance. When it is given and
  truthy, exactly its dump is sent, and the result depends neither on the keyword
  arguments nor on the schema's validation function. When it is absent or falsy, the
  keyword arguments are validated first: if validation raises, nothing is sent; if it
  passes, exactly the keyword arguments are sent and the outcome is that of the remote
  call on them.
\<close>

theorem call_dispatch_on_truthiness:
  "(tool_input_truthy tool tool_input \<longrightarrow>
      (\<exists>m. tool_input = Some m
         \<and> fst (response_fn config tool tool_input kwargs) = [model_dump (input_schema tool) m])
      \<and> response_fn config
           (tool\<lparr>input_schema := (input_schema tool)\<lparr>model_validate := validate'\<rparr>\<rparr>)
           tool_input kwargs'
         = response_fn config tool tool_input kwargs) \<and>
   (\<not> tool_input_truthy tool tool_input \<longrightarrow>
      (isl (model_validate (input_schema tool) kwargs)
         \<longrightarrow> fst (response_fn config tool tool_input kwargs) = []) \<and>
      (\<not> isl (model_validate (input_schema tool) kwargs)
         \<longrightarrow> response_fn config tool tool_input kwargs
             = ([kwargs],
                case acall tool kwargs of
                  Inr r \<Rightarrow> Inr r
                | Inl e \<Rightarrow> if isinstance_Exception e \<and> return_exception config
                           then Inr (str e) else Inl e)))"
proof (cases tool_input)
  case None
  then show ?thesis
    by (auto simp: response_fn_falsy split: sum.splits)
next
  case (Some m)
  show ?thesis
  proof (cases "model_bool (input_schema tool) m")
    case True
    then show ?thesis
      using Some by (simp add: response_fn_truthy Let_def split: sum.splits)
  next
    case False
    then have "\<not> tool_input_truthy tool tool_input"
      using Some by simp
    then show ?thesis
      by (auto simp: response_fn_falsy split: sum.splits)
  qed
qed

theorem call_dispatch_on_truthiness_witness:
  "tool_input_truthy echo_tool (Some [(''text'', ''hi'')]) \<and>
   response_fn (MCPToolConfig_fields sse_kwargs) echo_tool (Some [(''text'', ''hi'')])
       [(''txt'', ''ignored'')]
     = ([[(''text'', ''hi'')]], Inr ''hi'') \<and>
   \<not> tool_input_truthy echo_tool (Some []) \<and>
   response_fn (MCPToolConfig_fields sse_kwargs) echo_tool (Some []) [(''txt'', ''x'')]
     = ([], Inr ''text: Field required'') \<and>
   response_fn (MCPToolConfig_fields sse_kwargs) echo_tool (Some []) [(''text'', ''x'')]
     = ([[(''text'', ''x'')]], Inr ''x'')"
  using call_dispatch_on_truthiness
      [where tool = echo_tool and tool_input = "Some [(''text'', ''hi'')]"
         and kwargs = "[(''txt'', ''ignored'')]" and kwargs' = "[]"
         and validate' = "model_validate echo_schema"
         and config = "MCPToolConfig_fields sse_kwargs"]
    call_dispatch_on_truthiness
      [where tool = echo_tool and tool_input = "Some []" and kwargs = "[(''txt'', ''x'')]"
         and kwargs' = "[]" and validate' = "model_validate echo_schema"
         and config = "MCPToolConfig_fields sse_kwargs"]
    call_dispatch_on_truthiness
      [where tool = echo_tool and tool_input = "Some []" and kwargs = "[(''text'', ''x'')]"
         and kwargs' = "[]" and validate' = "model_validate echo_schema"
         and config = "MCPToolConfig_fields sse_kwargs"]
  by (simp add: response_fn_def call_kwargs_def echo_tool_def echo_schema_def
      MCPToolConfig_fields_def sse_kwargs_def no_kwargs_def)

text \<open>
  C10. When the constructor is not given \<open>return_exception\<close>, the field is true; so for
  a configuration built that way, a call whose body raises an \<^verbatim>\<open>Exception\<close> returns
  the text of the exception and raises nothing.
\<close>

theorem return_exception_default:
  "kw_return_exception kw = None \<longrightarrow>
     return_exception (MCPToolConfig_fields kw) \<and>
     (MCPToolConfig_init kw = Inr config \<longrightarrow>
        return_exception config \<and>
        (try_body tool tool_input kwargs = (sent, Inl e) \<and> isinstance_Exception e
           \<longrightarrow> response_fn config tool tool_input kwargs = (sent, Inr (str e))))"
  by (auto simp: MCPToolConfig_init_def MCPToolConfig_fields_def response_fn_def Let_def
      split: sum.splits)

theorem return_exception_default_witness:
  "kw_return_exception sse_kwargs = None \<and>
   MCPToolConfig_init sse_kwargs = Inr (MCPToolConfig_fields sse_kwargs) \<and>
   return_exception (MCPToolConfig_fields sse_kwargs) \<and>
   try_body echo_tool None [(''txt'', ''hi'')]
     = ([], Inl (Exc ValidationError ''text: Field required'')) \<and>
   response_fn (MCPToolConfig_fields sse_kwargs) echo_tool None [(''txt'', ''hi'')]
     = ([], Inr ''text: Field required'')"
  using return_exception_default
      [where kw = sse_kwargs and config = "MCPToolConfig_fields sse_kwargs"
         and tool = echo_tool and tool_input = None and kwargs = "[(''txt'', ''hi'')]"
         and sent = "[]" and e = "Exc ValidationError ''text: Field required''"]
  by (simp add: MCPToolConfig_init_def model_post_init_def MCPToolConfig_fields_def
      response_fn_def call_kwargs_def echo_tool_def echo_schema_def sse_kwargs_def
      no_kwargs_def)

section \<open>The schema of the adapted function\<close>

text \<open>
  C8. When the wrapper yields a function for a discovered tool, the schema it declares is
  the discovered tool's schema; its converter from text parses with that schema, and its
  call validates keyword arguments with that schema. A description in the configuration
  replaces the declared description and leaves the schema and the remote call as
  discovered.
\<close>

theorem discovered_schema_round_trip:
  "mcp_tool get_tool config builder = Inr fn \<longrightarrow>
     (\<exists>source client discovered.
        setup_client config builder = Inr (source, client) \<and>
        get_tool client (mcp_tool_name config) = Inr discovered \<and>
        fn_input_schema fn = input_schema discovered \<and>
        converters fn = [model_validate_json (fn_input_schema fn)] \<and>
        single_fn fn
          = response_fn config (discovered\<lparr>tool_description := fn_description fn\<rparr>) \<and>
        (isl (model_validate (fn_input_schema fn) kwargs)
           \<longrightarrow> fst (single_fn fn None kwargs) = []) \<and>
        (\<not> isl (model_validate (fn_input_schema fn) kwargs)
           \<longrightarrow> fst (single_fn fn None kwargs) = [kwargs]) \<and>
        fn_description fn
          = (if truthy (description config) then py_str (description config)
             else tool_description discovered) \<and>
        input_schema (set_description new_text discovered) = input_schema discovered \<and>
        acall (set_description new_text discovered) = acall discovered \<and>
        tool_description (set_description new_text discovered) = new_text)"
proof
  assume run: "mcp_tool get_tool config builder = Inr fn"
  then obtain source client where
    selected: "setup_client config builder = Inr (source, client)"
    by (auto simp: mcp_tool_def split: sum.splits)
  with run obtain discovered where
    found: "get_tool client (mcp_tool_name config) = Inr discovered"
    by (auto simp: mcp_tool_def split: sum.splits)
  define tool where "tool = override_description (description config) discovered"
  have fn: "fn = \<lparr> single_fn = response_fn config tool,
                   fn_description = tool_description tool,
                   fn_input_schema = input_schema tool,
                   converters = [convert_from_str tool] \<rparr>"
    using run selected found by (auto simp: mcp_tool_def tool_def Let_def)
  have tool: "tool = discovered\<lparr>tool_description := tool_description tool\<rparr>"
    "tool_description tool
       = (if truthy (description config) then py_str (description config)
          else tool_description discovered)"
    unfolding tool_def
    by (cases "description config" rule: truthy.cases; simp add: set_description_def)+
  have schema: "input_schema tool = input_schema discovered"
    by (subst tool(1)) simp
  have conv: "convert_from_str tool = model_validate_json (input_schema tool)"
    by (rule ext) (simp add: convert_from_str_def)
  have sent: "fst (response_fn config tool None kwargs)
      = (if isl (model_validate (input_schema tool) kwargs) then [] else [kwargs])"
    by (simp add: response_fn_falsy split: sum.splits)
  show "\<exists>source client discovered.
        setup_client config builder = Inr (source, client) \<and>
        get_tool client (mcp_tool_name config) = Inr discovered \<and>
        fn_input_schema fn = input_schema discovered \<and>
        converters fn = [model_validate_json (fn_input_schema fn)] \<and>
        single_fn fn
          = response_fn config (discovered\<lparr>tool_description := fn_description fn\<rparr>) \<and>
        (isl (model_validate (fn_input_schema fn) kwargs)
           \<longrightarrow> fst (single_fn fn None kwargs) = []) \<and>
        (\<not> isl (model_validate (fn_input_schema fn) kwargs)
           \<longrightarrow> fst (single_fn fn None kwargs) = [kwargs]) \<and>
        fn_description fn
          = (if truthy (description config) then py_str (description config)
             else tool_description discovered) \<and>
        input_schema (set_description new_text discovered) = input_schema discovered \<and>
        acall (set_description new_text discovered) = acall discovered \<and>
        tool_description (set_description new_text discovered) = new_text"
    using selected found tool schema conv sent
    by (intro exI [of _ source] exI [of _ client] exI [of _ discovered])
       (simp add: fn set_description_def)
qed

theorem discovered_schema_round_trip_witness:
  "mcp_tool example_get_tool
       (MCPToolConfig_fields (sse_kwargs\<lparr>kw_description := Some ''Repeat the text''\<rparr>))
       example_builder
     = Inr \<lparr> single_fn = response_fn
               (MCPToolConfig_fields (sse_kwargs\<lparr>kw_description := Some ''Repeat the text''\<rparr>))
               (echo_tool\<lparr>tool_description := ''Repeat the text''\<rparr>),
             fn_description = ''Repeat the text'',
             fn_input_schema = echo_schema,
             converters = [convert_from_str (echo_tool\<lparr>tool_description := ''Repeat the text''\<rparr>)] \<rparr> \<and>
   input_schema echo_tool = echo_schema \<and>
   tool_description echo_tool = ''Echo the text''"
  using discovered_schema_round_trip
      [where get_tool = example_get_tool
         and config = "MCPToolConfig_fields (sse_kwargs\<lparr>kw_description := Some ''Repeat the text''\<rparr>)"
         and builder = example_builder
         and fn = "\<lparr> single_fn = response_fn
               (MCPToolConfig_fields (sse_kwargs\<lparr>kw_description := Some ''Repeat the text''\<rparr>))
               (echo_tool\<lparr>tool_description := ''Repeat the text''\<rparr>),
             fn_description = ''Repeat the text'',
             fn_input_schema = echo_schema,
             converters = [convert_from_str (echo_tool\<lparr>tool_description := ''Repeat the text''\<rparr>)] \<rparr>"
         and kwargs = "[]" and new_text = "''x''"]
  by (simp add: mcp_tool_def setup_client_def server_configuration_def initialize_client_def
      example_get_tool_def set_description_def echo_tool_def MCPToolConfig_fields_def
      sse_kwargs_def no_kwargs_def Let_def)

end
